theory Spec2Isabelle
  imports
    Main
    "HOL-Library.AList"
    "HOL-Library.Char_ord"
    "HOL-Library.List_Lexorder"
    "HOL-Library.Product_Lexorder"
    "HOL-Library.Multiset"
begin

section \<open>Strings, patterns and numbers\<close>

text \<open>
  Python strings are modelled as \<^typ>\<open>string\<close> (lists of characters, here the code
  points below 256), Python's unbounded integers as \<^typ>\<open>int\<close>, and a \<^verbatim>\<open>dict\<close>
  as an association list whose keys are distinct and kept in insertion order, as
  Python's dictionaries keep them.
\<close>

text \<open>\<^verbatim>\<open>str.isspace\<close> of one character, which is also what \<^verbatim>\<open>\s\<close> matches.\<close>

definition is_space :: "char \<Rightarrow> bool" where
  "is_space c =
     (let n = (of_char c :: nat)
      in (9 \<le> n \<and> n \<le> 13) \<or> (28 \<le> n \<and> n \<le> 32) \<or> n = 133 \<or> n = 160)"


definition strip :: "string \<Rightarrow> string" where
  "strip s = rev (dropWhile is_space (rev (dropWhile is_space s)))"

text \<open>\<^verbatim>\<open>s.startswith(p)\<close> and \<^verbatim>\<open>sub in s\<close>.\<close>

fun startswith :: "string \<Rightarrow> string \<Rightarrow> bool" where
  "startswith s [] = True"
| "startswith [] (p # ps) = False"
| "startswith (c # cs) (p # ps) = (c = p \<and> startswith cs ps)"

fun contains :: "string \<Rightarrow> string \<Rightarrow> bool" where
  "contains sub [] = (sub = [])"
| "contains sub (c # cs) = (startswith (c # cs) sub \<or> contains sub cs)"

fun strip_prefix :: "string \<Rightarrow> string \<Rightarrow> string option" where
  "strip_prefix [] s = Some s"
| "strip_prefix (p # ps) [] = None"
| "strip_prefix (p # ps) (c # cs) = (if p = c then strip_prefix ps cs else None)"

text \<open>
  \<^verbatim>\<open>re.search(pattern, s)\<close> tries the pattern at every position of \<open>s\<close> from the
  left and returns the first match. A pattern is modelled by the function that
  matches it at the head of a string and returns group 1.
\<close>

fun re_search :: "(string \<Rightarrow> string option) \<Rightarrow> string \<Rightarrow> string option" where
  "re_search m [] = m []"
| "re_search m (c # cs) = (case m (c # cs) of Some g \<Rightarrow> Some g | None \<Rightarrow> re_search m cs)"

definition not_lt :: "char \<Rightarrow> bool" where
  "not_lt c = (c \<noteq> CHR ''<'')"

text \<open>
  The pattern \<^verbatim>\<open><tag>([^<]+)</tag>\<close>. The class \<^verbatim>\<open>[^<]\<close> matches every character
  but \<^verbatim>\<open><\<close>, the newline too. The repetition is greedy, and giving characters back
  cannot help: the closing tag starts with \<^verbatim>\<open><\<close>, which no character of the run is.
  So the group is the whole run up to the next \<^verbatim>\<open><\<close>.
\<close>

definition match_element :: "string \<Rightarrow> string \<Rightarrow> string option" where
  "match_element tag s =
     (case strip_prefix (''<'' @ tag @ ''>'') s of
        None \<Rightarrow> None
      | Some rest \<Rightarrow>
          (let g = takeWhile not_lt rest
           in if g \<noteq> [] \<and> startswith (dropWhile not_lt rest) (''</'' @ tag @ ''>'')
              then Some g else None))"

text \<open>The pattern \<^verbatim>\<open><StatusCode>([^0][^<]*)</StatusCode>\<close>.\<close>

definition match_status_code :: "string \<Rightarrow> string option" where
  "match_status_code s =
     (case strip_prefix ''<StatusCode>'' s of
        None \<Rightarrow> None
      | Some [] \<Rightarrow> None
      | Some (c # rest) \<Rightarrow>
          if c = CHR ''0'' then None
          else if startswith (dropWhile not_lt rest) ''</StatusCode>''
          then Some (c # takeWhile not_lt rest) else None)"

text \<open>The pattern \<^verbatim>\<open><MaterialMod>\s*<ID>([^<]+)</ID>\<close>.\<close>

definition match_material_mod_id :: "string \<Rightarrow> string option" where
  "match_material_mod_id s =
     (case strip_prefix ''<MaterialMod>'' s of
        None \<Rightarrow> None
      | Some rest \<Rightarrow> match_element ''ID'' (dropWhile is_space rest))"

text \<open>\<^verbatim>\<open>str(n)\<close>, which is also \<^verbatim>\<open>f"{n}"\<close>, of an integer.\<close>

definition digit_char :: "nat \<Rightarrow> char" where
  "digit_char d = ''0123456789'' ! d"

fun str_nat :: "nat \<Rightarrow> string" where
  "str_nat n = (if n < 10 then [digit_char n] else str_nat (n div 10) @ [digit_char (n mod 10)])"

declare str_nat.simps [simp del]

definition str_int :: "int \<Rightarrow> string" where
  "str_int i = (if i < 0 then CHR ''-'' # str_nat (nat (- i)) else str_nat (nat i))"

text \<open>
  A number of the mock's store: an \<^verbatim>\<open>int\<close>, or a \<^verbatim>\<open>float\<close> holding a whole number
  (the store adds \<^verbatim>\<open>float(...)\<close> of a rendered integer to its counts, so its floats
  are whole). The model is exact below \<open>2^53\<close>, where floats hold every integer and
  \<^verbatim>\<open>str\<close> writes them with a trailing \<^verbatim>\<open>.0\<close>.
\<close>

datatype pynum = PyInt int | PyFloat int

fun str_num :: "pynum \<Rightarrow> string" where
  "str_num (PyInt n) = str_int n"
| "str_num (PyFloat n) = str_int n @ ''.0''"

fun num_add_float :: "pynum \<Rightarrow> int \<Rightarrow> pynum" where
  "num_add_float (PyInt a) q = PyFloat (a + q)"
| "num_add_float (PyFloat a) q = PyFloat (a + q)"

text \<open>
  \<^verbatim>\<open>float(s)\<close> on the texts this program renders: an optional sign and decimal
  digits, with surrounding whitespace ignored; the value is the whole number read.
  \<open>None\<close> is \<^verbatim>\<open>ValueError\<close>. (Python also reads fractions, exponents, \<^verbatim>\<open>inf\<close> and
  \<^verbatim>\<open>nan\<close>; no renderer of this program writes them.)
\<close>

definition digit_val :: "char \<Rightarrow> nat option" where
  "digit_val c =
     (let n = (of_char c :: nat) in if 48 \<le> n \<and> n \<le> 57 then Some (n - 48) else None)"

fun parse_digits :: "string \<Rightarrow> nat \<Rightarrow> nat option" where
  "parse_digits [] acc = Some acc"
| "parse_digits (c # cs) acc =
     (case digit_val c of None \<Rightarrow> None | Some d \<Rightarrow> parse_digits cs (10 * acc + d))"

definition py_float :: "string \<Rightarrow> int option" where
  "py_float s =
     (case strip s of
        [] \<Rightarrow> None
      | c # cs \<Rightarrow>
          if c = CHR ''-'' then (if cs = [] then None
                                else map_option (\<lambda>n. - int n) (parse_digits cs 0))
          else if c = CHR ''+'' then (if cs = [] then None
                                     else map_option int (parse_digits cs 0))
          else map_option int (parse_digits (c # cs) 0))"

section \<open>Aggregation of material identifiers\<close>

text \<open>
  \<^verbatim>\<open>load_material_ids\<close>, on the lines of the input file: each line is stripped, and
  empty lines and lines starting with \<^verbatim>\<open>#\<close> are skipped.
\<close>

definition load_material_ids :: "string list \<Rightarrow> string list" where
  "load_material_ids file_lines =
     filter (\<lambda>line. line \<noteq> [] \<and> \<not> startswith line ''#'') (map strip file_lines)"

text \<open>
  \<^verbatim>\<open>Counter(material_ids)\<close> runs, for every element of its argument in order,
  \<^verbatim>\<open>mapping[elem] = mapping.get(elem, 0) + 1\<close>.
\<close>

definition dict_get :: "('k \<times> 'v) list \<Rightarrow> 'k \<Rightarrow> 'v \<Rightarrow> 'v" where
  "dict_get d k dflt = (case map_of d k of None \<Rightarrow> dflt | Some v \<Rightarrow> v)"

definition counter_add :: "('k \<times> int) list \<Rightarrow> 'k \<Rightarrow> ('k \<times> int) list" where
  "counter_add mapping elem = AList.update elem (dict_get mapping elem 0 + 1) mapping"

definition Counter :: "'k list \<Rightarrow> ('k \<times> int) list" where
  "Counter iterable = foldl counter_add [] iterable"

text \<open>
  \<^verbatim>\<open>count_materials\<close> is the same function in \<^verbatim>\<open>update_inventory.py\<close> and in
  \<^verbatim>\<open>xml_generator.py\<close>:
  \<^verbatim>\<open>return {mat_id: -count for mat_id, count in counts.items()}\<close>.
\<close>

definition count_materials :: "'k list \<Rightarrow> ('k \<times> int) list" where
  "count_materials material_ids =
     map (\<lambda>(mat_id, count). (mat_id, - count)) (Counter material_ids)"

text \<open>\<^verbatim>\<open>sum(abs(q) for q in quantity_changes.values())\<close>\<close>

definition total_pieces :: "('k \<times> int) list \<Rightarrow> int" where
  "total_pieces quantity_changes = sum_list (map (\<lambda>(k, q). \<bar>q\<bar>) quantity_changes)"

section \<open>Request documents\<close>

text \<open>The two renderers of \<^verbatim>\<open>update_inventory.py\<close>.\<close>

definition create_query_xml :: "string \<Rightarrow> string \<Rightarrow> string" where
  "create_query_xml session_id material_id =
     ''<?xml version=\"1.0\" encoding=\"UTF-8\"?>\<newline>'' @
     ''<JBXML>\<newline>'' @
     ''    <JBXMLRequest>\<newline>'' @
     ''        <SessionID>'' @ session_id @ ''</SessionID>\<newline>'' @
     ''        <MaterialQueryRq>\<newline>'' @
     ''            <MaterialQueryFilter>\<newline>'' @
     ''                <ID>'' @ material_id @ ''</ID>\<newline>'' @
     ''                <IncludeMaterialLocations>false</IncludeMaterialLocations>\<newline>'' @
     ''                <IncludeCustomerParts>false</IncludeCustomerParts>\<newline>'' @
     ''                <IncludePriceBreaks>false</IncludePriceBreaks>\<newline>'' @
     ''            </MaterialQueryFilter>\<newline>'' @
     ''        </MaterialQueryRq>\<newline>'' @
     ''    </JBXMLRequest>\<newline>'' @
     ''</JBXML>''"

definition create_update_xml :: "string \<Rightarrow> string \<Rightarrow> string \<Rightarrow> int \<Rightarrow> string \<Rightarrow> string" where
  "create_update_xml session_id material_id last_updated quantity reason_id =
     ''<?xml version=\"1.0\" encoding=\"UTF-8\"?>\<newline>'' @
     ''<JBXML>\<newline>'' @
     ''    <JBXMLRequest>\<newline>'' @
     ''        <SessionID>'' @ session_id @ ''</SessionID>\<newline>'' @
     ''        <MaterialModRq>\<newline>'' @
     ''            <MaterialMod>\<newline>'' @
     ''                <ID>'' @ material_id @ ''</ID>\<newline>'' @
     ''                <LastUpdated>'' @ last_updated @ ''</LastUpdated>\<newline>'' @
     ''            </MaterialMod>\<newline>'' @
     ''            <AdjustOnHandQty>\<newline>'' @
     ''                <ReasonRef ID=\"'' @ reason_id @ ''\"/>\<newline>'' @
     ''                <Quantity>'' @ str_int quantity @ ''</Quantity>\<newline>'' @
     ''            </AdjustOnHandQty>\<newline>'' @
     ''        </MaterialModRq>\<newline>'' @
     ''    </JBXMLRequest>\<newline>'' @
     ''</JBXML>''"



section \<open>Response parsing\<close>

definition parse_last_updated :: "string \<Rightarrow> string option" where
  "parse_last_updated response = re_search (match_element ''LastUpdated'') response"

definition parse_error :: "string \<Rightarrow> string option" where
  "parse_error response =
     (if contains ''<StatusCode>0</StatusCode>'' response then None
      else case re_search (match_element ''StatusMessage'') response of
        Some g \<Rightarrow> Some g
      | None \<Rightarrow>
         (case re_search (match_element ''ErrorMessage'') response of
            Some g \<Rightarrow> Some g
          | None \<Rightarrow>
             (case re_search match_status_code response of
                Some g \<Rightarrow> Some (''Status code: '' @ g)
              | None \<Rightarrow> None)))"

section \<open>The update executor\<close>

text \<open>
  The outcome lists of \<^verbatim>\<open>run_updates\<close>:
  \<^verbatim>\<open>results = {"success": [], "failed": [], "errors": []}\<close>, with entries
  \<^verbatim>\<open>{"id", "qty"}\<close> and \<^verbatim>\<open>{"id", "qty", "error"}\<close>.
\<close>

record success_item =
  item_id :: string
  qty :: int

record failed_item = success_item +
  error :: string

record results =
  success :: "success_item list"
  failed :: "failed_item list"
  errors :: "string list"

definition add_success :: "results \<Rightarrow> string \<Rightarrow> int \<Rightarrow> results" where
  "add_success r m q = r\<lparr>success := success r @ [\<lparr>item_id = m, qty = q\<rparr>]\<rparr>"

definition add_failed :: "results \<Rightarrow> string \<Rightarrow> int \<Rightarrow> string \<Rightarrow> results" where
  "add_failed r m q e = r\<lparr>failed := failed r @ [\<lparr>item_id = m, qty = q, error = e\<rparr>]\<rparr>"

definition add_error :: "results \<Rightarrow> string \<Rightarrow> results" where
  "add_error r e = r\<lparr>errors := errors r @ [e]\<rparr>"

text \<open>
  The external channel is the COM object \<^verbatim>\<open>jb\<close>. Its methods act on a world
  \<open>'w\<close> that the program does not see; each returns its value, or \<open>Inl\<close> of the
  message of the exception it raised (\<^verbatim>\<open>str(e)\<close>), and the new world. Every call
  the program makes to the outside is written to a log of calls, which the model
  returns beside the results.
\<close>

datatype call =
    Call_Dispatch string
  | Call_CreateSession string string string
  | Call_ProcessRequest string
  | Call_CloseSession string

record 'w request_processor =
  CreateSession :: "string \<Rightarrow> string \<Rightarrow> string \<Rightarrow> 'w \<Rightarrow> (string + string) \<times> 'w"
  ProcessRequest :: "string \<Rightarrow> 'w \<Rightarrow> (string + string) \<times> 'w"
  CloseSession :: "string \<Rightarrow> 'w \<Rightarrow> (string + unit) \<times> 'w"

type_synonym 'w dispatcher = "string \<Rightarrow> 'w \<Rightarrow> (string + 'w request_processor) \<times> 'w"

text \<open>Python's truth value of an optional string: \<^verbatim>\<open>None\<close> and \<^verbatim>\<open>""\<close> are false.\<close>

fun truthy :: "string option \<Rightarrow> bool" where
  "truthy None = False"
| "truthy (Some s) = (s \<noteq> [])"

fun str_of :: "string option \<Rightarrow> string" where
  "str_of None = ''None''"
| "str_of (Some s) = s"

text \<open>The body of the loop of \<^verbatim>\<open>run_updates\<close>, for one material.\<close>

definition process_material ::
  "'w request_processor \<Rightarrow> string \<Rightarrow> string \<Rightarrow> string \<times> int \<Rightarrow>
   results \<times> call list \<times> 'w \<Rightarrow> results \<times> call list \<times> 'w" where
  "process_material jb session_id reason_id item st =
     (case item of (material_id, quantity) \<Rightarrow>
      case st of (results, calls, w) \<Rightarrow>
        let query_xml = create_query_xml session_id material_id;
            calls1 = calls @ [Call_ProcessRequest query_xml]
        in case ProcessRequest jb query_xml w of
             (Inl e, w1) \<Rightarrow> (add_failed results material_id quantity e, calls1, w1)
           | (Inr response, w1) \<Rightarrow>
               let error = parse_error response
               in if truthy error
                  then (add_failed results material_id quantity (str_of error), calls1, w1)
                  else
                    let last_updated = parse_last_updated response
                    in if \<not> truthy last_updated
                       then (add_failed results material_id quantity ''Not found'', calls1, w1)
                       else
                         let update_xml = create_update_xml session_id material_id
                                            (str_of last_updated) quantity reason_id;
                             calls2 = calls1 @ [Call_ProcessRequest update_xml]
                         in case ProcessRequest jb update_xml w1 of
                              (Inl e, w2) \<Rightarrow>
                                (add_failed results material_id quantity e, calls2, w2)
                            | (Inr response2, w2) \<Rightarrow>
                                let error2 = parse_error response2
                                in if truthy error2
                                   then (add_failed results material_id quantity
                                           (str_of error2), calls2, w2)
                                   else (add_success results material_id quantity, calls2, w2))"

definition process_all ::
  "'w request_processor \<Rightarrow> string \<Rightarrow> string \<Rightarrow> (string \<times> int) list \<Rightarrow>
   results \<times> call list \<times> 'w \<Rightarrow> results \<times> call list \<times> 'w" where
  "process_all jb session_id reason_id items st =
     fold (process_material jb session_id reason_id) items st"

definition empty_results :: results where
  "empty_results = \<lparr>success = [], failed = [], errors = []\<rparr>"

definition prog_id :: string where
  "prog_id = ''JBRequestProcessor.RequestProcessor''"

text \<open>
  \<^verbatim>\<open>run_updates\<close>, on the lines of the file at \<^verbatim>\<open>input_path\<close>. The loop runs over
  \<^verbatim>\<open>sorted(quantity_changes.items())\<close>: pairs in lexicographic order, strings by code
  point. \<^verbatim>\<open>CloseSession\<close> is called in the \<^verbatim>\<open>finally\<close> block and whatever it raises
  is dropped.
\<close>

definition run_updates ::
  "'w dispatcher \<Rightarrow> string list \<Rightarrow> string \<Rightarrow> string \<Rightarrow> string \<Rightarrow> bool \<Rightarrow> 'w \<Rightarrow>
   results \<times> call list \<times> 'w" where
  "run_updates Dispatch input_lines username password reason_id dry_run w =
     (let results = empty_results;
          material_ids = load_material_ids input_lines
      in if material_ids = [] then (results, [], w)
         else
           let quantity_changes = count_materials material_ids
           in if dry_run then (results, [], w)
              else
                let calls1 = [Call_Dispatch prog_id]
                in case Dispatch prog_id w of
                     (Inl e, w1) \<Rightarrow>
                       (add_error results (''Failed to create COM object: '' @ e), calls1, w1)
                   | (Inr jb, w1) \<Rightarrow>
                       let error_msg = '''';
                           calls2 = calls1 @ [Call_CreateSession username password error_msg]
                       in case CreateSession jb username password error_msg w1 of
                            (Inl e, w2) \<Rightarrow>
                              (add_error results (''Session failed: '' @ e), calls2, w2)
                          | (Inr session_id, w2) \<Rightarrow>
                              if session_id = []
                              then (add_error results (''Session failed: '' @ error_msg),
                                    calls2, w2)
                              else
                                (case process_all jb session_id reason_id
                                        (sort quantity_changes) (results, calls2, w2) of
                                   (results', calls3, w3) \<Rightarrow>
                                     (results', calls3 @ [Call_CloseSession session_id],
                                      snd (CloseSession jb session_id w3))))"

text \<open>
  \<^verbatim>\<open>main\<close> of \<^verbatim>\<open>update_inventory.py\<close>, as the exit status of the process. The file
  system is the optional list of lines of the file at \<^verbatim>\<open>args.input\<close>
  (\<open>None\<close>: the path does not exist).
\<close>

record args =
  arg_input :: string
  arg_user :: "string option"
  arg_password :: "string option"
  arg_reason :: string
  arg_dry_run :: bool

definition exit_status :: "results \<Rightarrow> int" where
  "exit_status r = (if failed r \<noteq> [] \<or> errors r \<noteq> [] then 1 else 0)"

definition main ::
  "'w dispatcher \<Rightarrow> (string \<Rightarrow> string list option) \<Rightarrow> args \<Rightarrow> 'w \<Rightarrow> int \<times> call list \<times> 'w" where
  "main Dispatch fs a w =
     (if \<not> truthy (arg_user a) then (1, [], w)
      else if \<not> truthy (arg_password a) then (1, [], w)
      else case fs (arg_input a) of
        None \<Rightarrow> (1, [], w)
      | Some input_lines \<Rightarrow>
          (case run_updates Dispatch input_lines (str_of (arg_user a)) (str_of (arg_password a))
                  (arg_reason a) (arg_dry_run a) w of
             (r, calls, w') \<Rightarrow> (exit_status r, calls, w')))"

section \<open>The audit package of the two-phase workflow\<close>






section \<open>The mock of the external store\<close>

text \<open>
  \<^verbatim>\<open>MockJobBOSS\<close>. The material database is a dictionary of records. The two calls
  of \<^verbatim>\<open>datetime.now()\<close> are read from a clock: the text that \<^verbatim>\<open>strftime\<close> and
  \<^verbatim>\<open>isoformat\<close> give at the \<open>n\<close>-th reading, with the number of readings made so
  far kept in the state.
\<close>

record material =
  mat_id :: string
  description :: string
  on_hand :: pynum
  last_updated :: string

record mock =
  session_active :: bool
  session_id :: "string option"
  request_log :: "string list"
  materials :: "(string \<times> material) list"
  ticks :: nat

record clock =
  strftime_now :: "nat \<Rightarrow> string"
  isoformat_now :: "nat \<Rightarrow> string"

definition material_query_rs :: "material \<Rightarrow> string" where
  "material_query_rs mat =
     ''<?xml version=\"1.0\" encoding=\"UTF-8\"?>\<newline>'' @
     ''<JBXML>\<newline>'' @
     ''    <JBXMLRespond>\<newline>'' @
     ''        <MaterialQueryRs>\<newline>'' @
     ''            <StatusCode>0</StatusCode>\<newline>'' @
     ''            <StatusMessage>Success</StatusMessage>\<newline>'' @
     ''            <Material>\<newline>'' @
     ''                <ID>'' @ mat_id mat @ ''</ID>\<newline>'' @
     ''                <Description>'' @ description mat @ ''</Description>\<newline>'' @
     ''                <OnHand>'' @ str_num (on_hand mat) @ ''</OnHand>\<newline>'' @
     ''                <LastUpdated>'' @ last_updated mat @ ''</LastUpdated>\<newline>'' @
     ''            </Material>\<newline>'' @
     ''        </MaterialQueryRs>\<newline>'' @
     ''    </JBXMLRespond>\<newline>'' @
     ''</JBXML>''"

definition material_mod_rs :: "string \<Rightarrow> material \<Rightarrow> string" where
  "material_mod_rs material_id mat =
     ''<?xml version=\"1.0\" encoding=\"UTF-8\"?>\<newline>'' @
     ''<JBXML>\<newline>'' @
     ''    <JBXMLRespond>\<newline>'' @
     ''        <MaterialModRs>\<newline>'' @
     ''            <StatusCode>0</StatusCode>\<newline>'' @
     ''            <StatusMessage>Success</StatusMessage>\<newline>'' @
     ''            <MaterialRet>\<newline>'' @
     ''                <ID>'' @ material_id @ ''</ID>\<newline>'' @
     ''                <OnHand>'' @ str_num (on_hand mat) @ ''</OnHand>\<newline>'' @
     ''                <LastUpdated>'' @ last_updated mat @ ''</LastUpdated>\<newline>'' @
     ''            </MaterialRet>\<newline>'' @
     ''        </MaterialModRs>\<newline>'' @
     ''    </JBXMLRespond>\<newline>'' @
     ''</JBXML>''"

definition error_response :: "string \<Rightarrow> string" where
  "error_response message =
     ''<?xml version=\"1.0\" encoding=\"UTF-8\"?>\<newline>'' @
     ''<JBXML>\<newline>'' @
     ''    <JBXMLRespond>\<newline>'' @
     ''        <StatusCode>1</StatusCode>\<newline>'' @
     ''        <StatusMessage>'' @ message @ ''</StatusMessage>\<newline>'' @
     ''    </JBXMLRespond>\<newline>'' @
     ''</JBXML>''"

definition mock_CreateSession ::
  "clock \<Rightarrow> string \<Rightarrow> string \<Rightarrow> string \<Rightarrow> mock \<Rightarrow> (string + string) \<times> mock" where
  "mock_CreateSession clk username password error_msg s =
     (if username \<noteq> [] \<and> password \<noteq> []
      then let sid = ''MOCK-SESSION-'' @ strftime_now clk (ticks s)
           in (Inr sid, s\<lparr>session_active := True, session_id := Some sid,
                           ticks := Suc (ticks s)\<rparr>)
      else (Inr [], s))"

definition mock_CloseSession :: "string \<Rightarrow> mock \<Rightarrow> (string + unit) \<times> mock" where
  "mock_CloseSession sid s = (Inr (), s\<lparr>session_active := False, session_id := None\<rparr>)"

definition handle_material_query :: "string \<Rightarrow> mock \<Rightarrow> string" where
  "handle_material_query xml_request s =
     (case re_search (match_element ''ID'') xml_request of
        None \<Rightarrow> error_response ''No material ID in query''
      | Some material_id \<Rightarrow>
          (case map_of (materials s) material_id of
             Some mat \<Rightarrow> material_query_rs mat
           | None \<Rightarrow> error_response (''Material not found: '' @ material_id)))"

definition handle_material_mod ::
  "clock \<Rightarrow> string \<Rightarrow> mock \<Rightarrow> (string + string) \<times> mock" where
  "handle_material_mod clk xml_request s =
     (case re_search match_material_mod_id xml_request of
        None \<Rightarrow> (Inr (error_response ''No material ID in update''), s)
      | Some material_id \<Rightarrow>
     (case re_search (match_element ''LastUpdated'') xml_request of
        None \<Rightarrow> (Inr (error_response ''No LastUpdated in update''), s)
      | Some submitted_last_updated \<Rightarrow>
     (case re_search (match_element ''Quantity'') xml_request of
        None \<Rightarrow> (Inr (error_response ''No Quantity in update''), s)
      | Some quantity_text \<Rightarrow>
     (case py_float quantity_text of
        None \<Rightarrow> (Inl (''could not convert string to float: '' @ quantity_text), s)
      | Some quantity \<Rightarrow>
     (case map_of (materials s) material_id of
        None \<Rightarrow> (Inr (error_response (''Material not found: '' @ material_id)), s)
      | Some mat \<Rightarrow>
          if submitted_last_updated \<noteq> last_updated mat
          then (Inr (error_response (''LastUpdated mismatch. Expected: '' @ last_updated mat @
                                     '', Got: '' @ submitted_last_updated)), s)
          else
            let mat' = mat\<lparr>on_hand := num_add_float (on_hand mat) quantity,
                           last_updated := isoformat_now clk (ticks s)\<rparr>
            in (Inr (material_mod_rs material_id mat'),
                s\<lparr>materials := AList.update material_id mat' (materials s),
                  ticks := Suc (ticks s)\<rparr>))))))"

definition mock_ProcessRequest ::
  "clock \<Rightarrow> string \<Rightarrow> mock \<Rightarrow> (string + string) \<times> mock" where
  "mock_ProcessRequest clk xml_request s0 =
     (let s = s0\<lparr>request_log := request_log s0 @ [xml_request]\<rparr>
      in if contains ''<MaterialQueryRq>'' xml_request
         then (Inr (handle_material_query xml_request s), s)
         else if contains ''<MaterialModRq>'' xml_request
         then handle_material_mod clk xml_request s
         else (Inr (error_response ''Unknown request type''), s))"

definition MockJobBOSS :: "clock \<Rightarrow> mock request_processor" where
  "MockJobBOSS clk =
     \<lparr>CreateSession = mock_CreateSession clk,
      ProcessRequest = mock_ProcessRequest clk,
      CloseSession = mock_CloseSession\<rparr>"

text \<open>
  \<^verbatim>\<open>_mock_dispatch\<close> with the mock installed and no original \<^verbatim>\<open>Dispatch\<close>: the
  world is the state of the one mock instance.
\<close>

definition mock_dispatch :: "clock \<Rightarrow> mock dispatcher" where
  "mock_dispatch clk p s =
     (if p = ''JBRequestProcessor.RequestProcessor'' then (Inr (MockJobBOSS clk), s)
      else (Inl (''Mock: Unknown COM object: '' @ p), s))"

section \<open>Notions used in the statements\<close>

text \<open>A text without the character \<^verbatim>\<open><\<close>, which the documents do not escape.\<close>

definition lt_free :: "string \<Rightarrow> bool" where
  "lt_free s = (CHR ''<'' \<notin> set s)"

text \<open>The identifiers that have an outcome record, successes first.\<close>

definition outcome_ids :: "results \<Rightarrow> string list" where
  "outcome_ids r = map item_id (success r) @ map item_id (failed r)"

fun is_close :: "call \<Rightarrow> bool" where
  "is_close (Call_CloseSession sid) = True"
| "is_close (Call_Dispatch p) = False"
| "is_close (Call_CreateSession u p e) = False"
| "is_close (Call_ProcessRequest x) = False"

text \<open>
  The store of \<^verbatim>\<open>test_nonexistent_material\<close> in \<^verbatim>\<open>test_workflow.py\<close>, its input
  file, and a clock.
\<close>

definition test_clock :: clock where
  "test_clock =
     \<lparr>strftime_now = (\<lambda>n. ''20250101120000''),
      isoformat_now = (\<lambda>n. ''2025-01-01T12:00:00.'' @ str_nat n)\<rparr>"

definition test_store :: mock where
  "test_store =
     \<lparr>session_active = False, session_id = None, request_log = [],
      materials =
        [(''EXISTING-001'',
          \<lparr>mat_id = ''EXISTING-001'', description = ''Exists'', on_hand = PyInt 10,
           last_updated = ''2025-01-01T00:00:00''\<rparr>)],
      ticks = 0\<rparr>"

definition test_input :: "string list" where
  "test_input = [''EXISTING-001\<newline>'', ''NONEXISTENT-999\<newline>'']"

text \<open>
  A channel that answers the requests with a given list of responses, in order; its
  world is the list of the responses still to come.
\<close>

definition scripted_jb :: "string list request_processor" where
  "scripted_jb =
     \<lparr>CreateSession = (\<lambda>u p e w. (Inr ''SCRIPTED'', w)),
      ProcessRequest = (\<lambda>xml w. case w of [] \<Rightarrow> (Inl ''no response'', [])
                                       | r # rs \<Rightarrow> (Inr r, rs)),
      CloseSession = (\<lambda>sid w. (Inr (), w))\<rparr>"



text \<open>A record of the store whose texts can be read back from a response.\<close>

definition material_ok :: "material \<Rightarrow> bool" where
  "material_ok mat =
     (lt_free (mat_id mat) \<and> lt_free (description mat) \<and> lt_free (last_updated mat) \<and>
      last_updated mat \<noteq> [])"

definition store_ok :: "mock \<Rightarrow> bool" where
  "store_ok s = list_all (\<lambda>(k, mat). material_ok mat) (materials s)"




section \<open>Properties of the aggregation\<close>

lemma counter_add_keys:
  "map fst (counter_add m k) = (if k \<in> set (map fst m) then map fst m else map fst m @ [k])"
  by (simp add: counter_add_def update_keys)

lemma counter_add_distinct:
  "distinct (map fst m) \<Longrightarrow> distinct (map fst (counter_add m k))"
  by (simp add: counter_add_keys)

lemma counter_add_lookup:
  "dict_get (counter_add m k) k' 0 = dict_get m k' 0 + (if k' = k then 1 else 0)"
  by (simp add: counter_add_def dict_get_def update_conv')

lemma foldl_counter_distinct:
  "distinct (map fst m) \<Longrightarrow> distinct (map fst (foldl counter_add m xs))"
  by (induction xs arbitrary: m) (simp_all add: counter_add_distinct)

lemma foldl_counter_keys:
  "fst ` set (foldl counter_add m xs) = fst ` set m \<union> set xs"
  by (induction xs arbitrary: m) (simp_all add: counter_add_def dom_update)

lemma foldl_counter_lookup:
  "dict_get (foldl counter_add m xs) k 0 = dict_get m k 0 + int (count_list xs k)"
  by (induction xs arbitrary: m) (simp_all add: counter_add_lookup)

lemma sum_snd_update:
  "distinct (map fst m) \<Longrightarrow>
   sum_list (map snd (AList.update k v m)) = sum_list (map snd m) - dict_get m k 0 + (v::int)"
  by (induction m) (auto simp: dict_get_def image_iff)

lemma foldl_counter_sum:
  "distinct (map fst m) \<Longrightarrow>
   sum_list (map snd (foldl counter_add m xs)) = sum_list (map snd m) + int (length xs)"
proof (induction xs arbitrary: m)
  case Nil
  show ?case by simp
next
  case (Cons x xs)
  have "sum_list (map snd (counter_add m x)) = sum_list (map snd m) + 1"
    using Cons.prems by (simp add: counter_add_def sum_snd_update)
  with Cons.IH [OF counter_add_distinct [OF Cons.prems]] show ?case by simp
qed

lemma foldl_counter_positive:
  "\<forall>p \<in> set m. 0 < snd p \<Longrightarrow> \<forall>p \<in> set (foldl counter_add m xs). 0 < snd p"
proof (induction xs arbitrary: m)
  case Nil
  then show ?case by simp
next
  case (Cons x xs)
  have nonneg: "0 \<le> dict_get m x 0"
    using Cons.prems by (auto simp: dict_get_def split: option.splits dest!: map_of_SomeD)
  have "set (AList.update x v m) \<subseteq> insert (x, v) (set m)" for v
    by (induction m) auto
  then have "\<forall>p \<in> set (counter_add m x). 0 < snd p"
    using Cons.prems nonneg unfolding counter_add_def by fastforce
  then show ?case using Cons.IH by simp
qed

lemma Counter_distinct: "distinct (map fst (Counter xs))"
  unfolding Counter_def by (rule foldl_counter_distinct) simp

lemma Counter_keys: "fst ` set (Counter xs) = set xs"
  unfolding Counter_def by (simp add: foldl_counter_keys)

lemma Counter_map_of:
  "map_of (Counter xs) k = (if k \<in> set xs then Some (int (count_list xs k)) else None)"
proof (cases "k \<in> set xs")
  case True
  then have "k \<in> fst ` set (Counter xs)" using Counter_keys [of xs] by simp
  then obtain v where v: "map_of (Counter xs) k = Some v"
    by (metis domD dom_map_of_conv_image_fst)
  have "dict_get [] k (0::int) = 0" by (simp add: dict_get_def)
  then have "dict_get (Counter xs) k 0 = int (count_list xs k)"
    unfolding Counter_def by (simp add: foldl_counter_lookup)
  with v True show ?thesis by (simp add: dict_get_def)
next
  case False
  then have "k \<notin> fst ` set (Counter xs)" using Counter_keys [of xs] by simp
  then have "map_of (Counter xs) k = None" by (simp add: map_of_eq_None_iff)
  with False show ?thesis by simp
qed

lemma count_materials_keys: "map fst (count_materials xs) = map fst (Counter xs)"
  by (simp add: count_materials_def case_prod_unfold comp_def)

lemma count_materials_map_of:
  "map_of (count_materials xs) k =
     (if k \<in> set xs then Some (- int (count_list xs k)) else None)"
proof -
  have "map_of (count_materials xs) k = map_option uminus (map_of (Counter xs) k)"
    unfolding count_materials_def by (simp add: map_of_map)
  then show ?thesis by (simp add: Counter_map_of)
qed

lemma count_materials_total: "total_pieces (count_materials xs) = int (length xs)"
proof -
  have pos: "\<forall>p \<in> set (Counter xs). 0 < snd p"
    unfolding Counter_def by (rule foldl_counter_positive) simp
  have "total_pieces (count_materials xs) = sum_list (map (\<lambda>p. \<bar>- snd p\<bar>) (Counter xs))"
    by (simp add: total_pieces_def count_materials_def comp_def case_prod_unfold)
  also have "\<dots> = sum_list (map snd (Counter xs))"
    using pos by (intro arg_cong [where f = sum_list] map_cong) auto
  also have "\<dots> = int (length xs)"
    unfolding Counter_def by (simp add: foldl_counter_sum)
  finally show ?thesis .
qed

lemma count_materials_distinct: "distinct (map fst (count_materials xs))"
  by (simp add: count_materials_keys Counter_distinct)

lemma count_materials_dom: "fst ` set (count_materials xs) = set xs"
  using Counter_keys [of xs] count_materials_keys [of xs] by (metis set_map)

lemma count_materials_mset:
  assumes "mset xs = mset ys"
  shows "map_of (count_materials xs) = map_of (count_materials ys)"
proof
  fix k
  have "count_list xs k = count_list ys k"
    using assms by (metis count_mset)
  moreover have "set xs = set ys"
    using assms by (metis set_mset_mset)
  ultimately show "map_of (count_materials xs) k = map_of (count_materials ys) k"
    by (simp add: count_materials_map_of)
qed

lemma count_materials_example:
  "count_materials [''A'', ''A'', ''A'', ''B'', ''B'', ''C''] =
     [(''A'', - 3), (''B'', - 2), (''C'', - 1)]"
  by (simp add: count_materials_def Counter_def counter_add_def dict_get_def)

text \<open>
  Claim C1. For every list of tokens the aggregation has distinct keys, maps each
  identifier of the list to the negative of its number of occurrences and no other
  key to anything, depends only on the multiset of the tokens, and the absolute
  values of its deltas add up to the length of the list. Aggregating
  \<open>[A, A, A, B, B, C]\<close> gives \<open>{A: -3, B: -2, C: -1}\<close>.
\<close>

theorem aggregation_counts:
  "distinct (map fst (count_materials ids)) \<and>
   map_of (count_materials ids) k =
     (if k \<in> set ids then Some (- int (count_list ids k)) else None) \<and>
   (mset ids' = mset ids \<longrightarrow> map_of (count_materials ids') = map_of (count_materials ids)) \<and>
   total_pieces (count_materials ids) = int (length ids) \<and>
   count_materials [''A'', ''A'', ''A'', ''B'', ''B'', ''C''] =
     [(''A'', - 3), (''B'', - 2), (''C'', - 1)]"
  using count_materials_distinct [of ids] count_materials_map_of [of ids k]
    count_materials_mset [of ids' ids] count_materials_total [of ids]
    count_materials_example
  by blast

theorem aggregation_counts_witness:
  "mset [''b'', ''b'', ''a''] = mset [''b'', ''a'', ''b''] \<and>
   map_of (count_materials [''b'', ''a'', ''b'']) ''b'' = Some (- 2) \<and>
   map_of (count_materials [''b'', ''b'', ''a'']) = map_of (count_materials [''b'', ''a'', ''b'']) \<and>
   total_pieces (count_materials [''b'', ''a'', ''b'']) = 3"
  using aggregation_counts [of "[''b'', ''a'', ''b'']" "''b''" "[''b'', ''b'', ''a'']"]
  by simp

section \<open>Strings and patterns\<close>

lemma startswith_iff: "startswith s p \<longleftrightarrow> (\<exists>r. s = p @ r)"
  by (induction s p rule: startswith.induct) auto


lemma startswith_self_append [simp]: "startswith (xs @ s) xs"
  by (simp add: startswith_iff)

lemma startswith_Nil2 [simp]: "startswith s []"
  by (cases s) simp_all

lemma strip_prefix_iff: "strip_prefix p s = Some r \<longleftrightarrow> s = p @ r"
  by (induction p s rule: strip_prefix.induct) auto

lemma strip_prefix_None_iff: "strip_prefix p s = None \<longleftrightarrow> \<not> startswith s p"
  by (induction p s rule: strip_prefix.induct) auto

lemma contains_iff: "contains sub s \<longleftrightarrow> (\<exists>pre post. s = pre @ sub @ post)"
proof (induction s)
  case Nil
  show ?case by auto
next
  case (Cons c cs)
  show ?case
  proof
    assume "contains sub (c # cs)"
    then consider "startswith (c # cs) sub" | "contains sub cs" by auto
    then show "\<exists>pre post. c # cs = pre @ sub @ post"
    proof cases
      case 1
      then obtain r where "c # cs = sub @ r" by (auto simp: startswith_iff)
      then have "c # cs = [] @ sub @ r" by simp
      then show ?thesis by blast
    next
      case 2
      then obtain pre post where "cs = pre @ sub @ post" using Cons.IH by blast
      then have "c # cs = (c # pre) @ sub @ post" by simp
      then show ?thesis by blast
    qed
  next
    assume "\<exists>pre post. c # cs = pre @ sub @ post"
    then obtain pre post where e: "c # cs = pre @ sub @ post" by blast
    show "contains sub (c # cs)"
    proof (cases pre)
      case Nil
      then have "startswith (c # cs) sub" using e by (simp add: startswith_iff)
      then show ?thesis by simp
    next
      case (Cons a pre')
      then have "cs = pre' @ sub @ post" using e by simp
      then have "contains sub cs" using Cons.IH by blast
      then show ?thesis by simp
    qed
  qed
qed


lemma contains_append_left: "contains sub r \<Longrightarrow> contains sub (r @ t)"
  unfolding contains_iff by (metis append.assoc)

text \<open>A run of characters without \<open><\<close> holds no match of a pattern that starts with it.\<close>

lemma startswith_lt_Cons: "c \<noteq> CHR ''<'' \<Longrightarrow> startswith (c # cs) (CHR ''<'' # p) = False"
  by simp

lemma contains_skip:
  "lt_free xs \<Longrightarrow> contains (CHR ''<'' # sub) (xs @ rest) = contains (CHR ''<'' # sub) rest"
  by (induction xs) (auto simp: lt_free_def)

lemma re_search_skip:
  assumes "\<And>c cs. c \<noteq> CHR ''<'' \<Longrightarrow> m (c # cs) = None" and "lt_free xs"
  shows "re_search m (xs @ rest) = re_search m rest"
  using assms(2) by (induction xs) (auto simp: lt_free_def assms(1))

lemma match_element_anchor: "c \<noteq> CHR ''<'' \<Longrightarrow> match_element tag (c # cs) = None"
  by (simp add: match_element_def)

lemma match_status_code_anchor: "c \<noteq> CHR ''<'' \<Longrightarrow> match_status_code (c # cs) = None"
  by (simp add: match_status_code_def)

lemma match_material_mod_id_anchor: "c \<noteq> CHR ''<'' \<Longrightarrow> match_material_mod_id (c # cs) = None"
  by (simp add: match_material_mod_id_def)

lemma re_search_element_skip:
  "lt_free xs \<Longrightarrow> re_search (match_element tag) (xs @ rest) = re_search (match_element tag) rest"
  by (rule re_search_skip) (simp_all add: match_element_anchor)

lemma re_search_status_skip:
  "lt_free xs \<Longrightarrow> re_search match_status_code (xs @ rest) = re_search match_status_code rest"
  by (rule re_search_skip) (simp_all add: match_status_code_anchor)

lemma re_search_mod_id_skip:
  "lt_free xs \<Longrightarrow> re_search match_material_mod_id (xs @ rest) = re_search match_material_mod_id rest"
  by (rule re_search_skip) (simp_all add: match_material_mod_id_anchor)

lemma takeWhile_lt_free: "lt_free xs \<Longrightarrow> takeWhile not_lt (xs @ CHR ''<'' # rest) = xs"
  by (induction xs) (auto simp: lt_free_def not_lt_def)

lemma dropWhile_lt_free: "lt_free xs \<Longrightarrow> dropWhile not_lt (xs @ CHR ''<'' # rest) = CHR ''<'' # rest"
  by (induction xs) (auto simp: lt_free_def not_lt_def)

lemma match_element_here:
  "lt_free xs \<Longrightarrow> xs \<noteq> [] \<Longrightarrow>
   match_element tag (''<'' @ tag @ ''>'' @ xs @ ''</'' @ tag @ ''>'' @ rest) = Some xs"
proof -
  assume a: "lt_free xs" "xs \<noteq> []"
  have "strip_prefix (''<'' @ tag @ ''>'') (''<'' @ tag @ ''>'' @ xs @ ''</'' @ tag @ ''>'' @ rest)
        = Some (xs @ ''</'' @ tag @ ''>'' @ rest)"
    by (simp add: strip_prefix_iff)
  moreover have "takeWhile not_lt (xs @ ''</'' @ tag @ ''>'' @ rest) = xs"
    using takeWhile_lt_free [OF a(1)] by simp
  moreover have "dropWhile not_lt (xs @ ''</'' @ tag @ ''>'' @ rest) = ''</'' @ tag @ ''>'' @ rest"
    using dropWhile_lt_free [OF a(1)] by simp
  moreover have "startswith (''</'' @ tag @ ''>'' @ rest) (''</'' @ tag @ ''>'')"
    by (simp add: startswith_iff)
  ultimately show ?thesis using a(2) by (simp add: match_element_def)
qed

lemma re_search_element_Some:
  "re_search (match_element tag) s = Some g \<Longrightarrow> lt_free g \<and> g \<noteq> []"
proof (induction s)
  case Nil
  then show ?case by (simp add: match_element_def split: option.splits if_splits)
next
  case (Cons c cs)
  show ?case
  proof (cases "match_element tag (c # cs)")
    case None
    then show ?thesis using Cons by simp
  next
    case (Some g')
    then have "g' = g" using Cons.prems by simp
    then obtain rest where "g = takeWhile not_lt rest" "g \<noteq> []"
      using Some by (auto simp: match_element_def Let_def split: option.splits if_splits)
    then show ?thesis
      by (metis lt_free_def not_lt_def set_takeWhileD)
  qed
qed

section \<open>The loop of the executor\<close>

lemma process_material_outcome:
  assumes "process_material jb sid reason (m, q) (r, c, w) = (r', c', w')"
  shows "errors r' = errors r \<and>
         ((success r' = success r @ [\<lparr>item_id = m, qty = q\<rparr>] \<and> failed r' = failed r) \<or>
          (\<exists>e. failed r' = failed r @ [\<lparr>item_id = m, qty = q, error = e\<rparr>] \<and>
               success r' = success r))"
  using assms
  by (auto simp: process_material_def Let_def add_failed_def add_success_def
           split: prod.splits sum.splits if_splits)

lemma process_material_ids:
  assumes "process_material jb sid reason (m, q) (r, c, w) = (r', c', w')"
  shows "errors r' = errors r \<and> mset (outcome_ids r') = mset (outcome_ids r) + {#m#}"
  using process_material_outcome [OF assms] by (auto simp: outcome_ids_def)

lemma process_all_ids:
  assumes "process_all jb sid reason items (r, c, w) = (r', c', w')"
  shows "errors r' = errors r \<and>
         mset (outcome_ids r') = mset (outcome_ids r) + mset (map fst items)"
  using assms
proof (induction items arbitrary: r c w)
  case Nil
  then show ?case by (simp add: process_all_def)
next
  case (Cons it items)
  obtain m q where it: "it = (m, q)" by (cases it)
  obtain r1 c1 w1 where step: "process_material jb sid reason (m, q) (r, c, w) = (r1, c1, w1)"
    by (cases "process_material jb sid reason (m, q) (r, c, w)")
  have rest: "process_all jb sid reason items (r1, c1, w1) = (r', c', w')"
    using Cons.prems it step by (simp add: process_all_def)
  show ?case
    using Cons.IH [OF rest] process_material_ids [OF step] it by simp
qed

lemma run_updates_dry: "run_updates D ls u p reason True w = (empty_results, [], w)"
  by (simp add: run_updates_def Let_def)

section \<open>Dry run, exit status and outcome records\<close>

text \<open>
  Claim C9. A run in dry-run mode makes no call to the external channel (the log of
  calls is empty and the world is unchanged) and returns no success, no failure and
  no error, whatever the input is.
\<close>

theorem dry_run_is_silent:
  "run_updates D file_lines u p reason True w =
     (\<lparr>success = [], failed = [], errors = []\<rparr>, [], w)"
  by (simp add: run_updates_def Let_def empty_results_def)

theorem dry_run_is_silent_witness:
  "load_material_ids test_input \<noteq> [] \<and>
   run_updates (mock_dispatch test_clock) test_input ''test'' ''test'' ''TEST'' True test_store =
     (\<lparr>success = [], failed = [], errors = []\<rparr>, [], test_store)"
  using dry_run_is_silent [of "mock_dispatch test_clock" test_input "''test''" "''test''"
      "''TEST''" test_store]
  by (simp add: load_material_ids_def test_input_def strip_def is_space_def)

text \<open>
  Claim C4, at an input file that holds a comment and a blank line only: with user
  and password given and the file present, \<^verbatim>\<open>main\<close> makes no call and exits with
  status 0.
\<close>

theorem empty_input_exit_status:
  "main D (\<lambda>path. Some [''# nothing was used today\<newline>'', ''\<newline>''])
     \<lparr>arg_input = ''material_ids.txt'', arg_user = Some ''user'',
      arg_password = Some ''secret'', arg_reason = ''ADJUST'', arg_dry_run = False\<rparr> w =
   (0, [], w)"
  by (simp add: main_def run_updates_def load_material_ids_def strip_def is_space_def
      exit_status_def empty_results_def)

text \<open>
  Claim C10. In a run that is not a dry run and whose session is established (the
  COM object is created and \<^verbatim>\<open>CreateSession\<close> returns a non-empty session id),
  every distinct identifier of the input has exactly one outcome record, in the
  success list or in the failure list: the identifiers of the two lists together are
  distinct, they are the identifiers of the input, and the lengths of the two lists
  add up to the number of distinct identifiers.
\<close>

theorem session_outcomes:
  assumes "D prog_id w = (Inr jb, w1)"
    and "CreateSession jb u p '''' w1 = (Inr sid, w2)"
    and "sid \<noteq> []"
  shows "let res = fst (run_updates D file_lines u p reason False w)
         in length (success res) + length (failed res) = card (set (load_material_ids file_lines)) \<and>
            distinct (map item_id (success res) @ map item_id (failed res)) \<and>
            set (map item_id (success res) @ map item_id (failed res)) =
              set (load_material_ids file_lines) \<and>
            errors res = []"
proof (cases "load_material_ids file_lines = []")
  case True
  then have "fst (run_updates D file_lines u p reason False w) = empty_results"
    by (simp add: run_updates_def)
  with True show ?thesis by (simp add: empty_results_def)
next
  case False
  let ?ids = "load_material_ids file_lines"
  let ?items = "sort (count_materials ?ids)"
  obtain r3 c3 w3 where loop:
    "process_all jb sid reason ?items
       (empty_results, [Call_Dispatch prog_id, Call_CreateSession u p ''''], w2) = (r3, c3, w3)"
    by (metis prod_cases3)
  have res: "fst (run_updates D file_lines u p reason False w) = r3"
    using assms False loop by (simp add: run_updates_def Let_def)
  have e: "errors r3 = []"
    using process_all_ids [OF loop] by (simp add: empty_results_def)
  have "mset (outcome_ids r3) = mset (map fst ?items)"
    using process_all_ids [OF loop] by (simp add: outcome_ids_def empty_results_def)
  also have "\<dots> = mset (map fst (count_materials ?ids))"
    by (metis mset_map mset_sort)
  finally have ms: "mset (outcome_ids r3) = mset (map fst (count_materials ?ids))" .
  have d: "distinct (outcome_ids r3)"
    using ms count_materials_distinct [of ?ids] by (metis mset_eq_imp_distinct_iff)
  have s: "set (outcome_ids r3) = set ?ids"
    using ms count_materials_dom [of ?ids] by (metis mset_eq_setD set_map)
  have "length (outcome_ids r3) = card (set ?ids)"
    using d s by (metis distinct_card)
  with d s e res show ?thesis by (simp add: outcome_ids_def)
qed

theorem session_outcomes_witness:
  "mock_dispatch test_clock prog_id test_store = (Inr (MockJobBOSS test_clock), test_store) \<and>
   CreateSession (MockJobBOSS test_clock) ''test'' ''test'' '''' test_store =
     (Inr ''MOCK-SESSION-20250101120000'',
      test_store\<lparr>session_active := True, session_id := Some ''MOCK-SESSION-20250101120000'',
                 ticks := 1\<rparr>) \<and>
   ''MOCK-SESSION-20250101120000'' \<noteq> [] \<and>
   (let res = fst (run_updates (mock_dispatch test_clock) test_input ''test'' ''test'' ''TEST''
                     False test_store)
    in length (success res) + length (failed res) = card (set (load_material_ids test_input)) \<and>
       distinct (map item_id (success res) @ map item_id (failed res)) \<and>
       set (map item_id (success res) @ map item_id (failed res)) =
         set (load_material_ids test_input) \<and>
       errors res = [])"
proof -
  have d: "mock_dispatch test_clock prog_id test_store = (Inr (MockJobBOSS test_clock), test_store)"
    by (simp add: mock_dispatch_def prog_id_def)
  have c: "CreateSession (MockJobBOSS test_clock) ''test'' ''test'' '''' test_store =
     (Inr ''MOCK-SESSION-20250101120000'',
      test_store\<lparr>session_active := True, session_id := Some ''MOCK-SESSION-20250101120000'',
                 ticks := 1\<rparr>)"
    by (simp add: MockJobBOSS_def mock_CreateSession_def test_clock_def test_store_def Let_def)
  have n: "''MOCK-SESSION-20250101120000'' \<noteq> []" by simp
  show ?thesis
    using d c n
      session_outcomes [where D = "mock_dispatch test_clock" and w = test_store
        and jb = "MockJobBOSS test_clock" and ?w1.0 = test_store and u = "''test''"
        and p = "''test''" and sid = "''MOCK-SESSION-20250101120000''"
        and file_lines = test_input and reason = "''TEST''", OF d c n]
    by blast
qed

section \<open>Fields of the request documents\<close>





section \<open>Responses without a status\<close>

lemma startswith_Nil1 [simp]: "startswith [] p = (p = [])"
  by (cases p) simp_all

lemma strip_prefix_startswith: "strip_prefix p s = Some r \<Longrightarrow> startswith s p"
  by (simp add: strip_prefix_iff startswith_iff)

lemma match_element_startswith:
  "match_element tag s = Some g \<Longrightarrow> startswith s (''<'' @ tag @ ''>'')"
  by (cases "strip_prefix (''<'' @ tag @ ''>'') s")
     (simp_all add: match_element_def strip_prefix_startswith)

lemma match_status_code_startswith:
  "match_status_code s = Some g \<Longrightarrow> startswith s ''<StatusCode>''"
  by (cases "strip_prefix ''<StatusCode>'' s")
     (simp_all add: match_status_code_def strip_prefix_startswith)

lemma contains_startswith: "startswith s sub \<Longrightarrow> contains sub s"
  by (cases s) (auto simp: startswith_iff)

lemma contains_Cons: "contains sub cs \<Longrightarrow> contains sub (c # cs)"
  by simp

lemma re_search_None:
  assumes "\<And>s g. m s = Some g \<Longrightarrow> startswith s sub" and "\<not> contains sub r"
  shows "re_search m r = None"
  using assms(2)
proof (induction r)
  case Nil
  then show ?case using assms(1) [of "[]"] contains_startswith by (cases "m []") auto
next
  case (Cons c cs)
  have "m (c # cs) = None"
    using assms(1) [of "c # cs"] Cons.prems contains_startswith by (cases "m (c # cs)") auto
  moreover have "\<not> contains sub cs" using Cons.prems by auto
  ultimately show ?case using Cons.IH by simp
qed

lemma re_search_element_None:
  "\<not> contains (''<'' @ tag @ ''>'') r \<Longrightarrow> re_search (match_element tag) r = None"
  by (rule re_search_None [where sub = "''<'' @ tag @ ''>''"]) (auto dest: match_element_startswith)

lemma re_search_status_None:
  "\<not> contains ''<StatusCode>'' r \<Longrightarrow> re_search match_status_code r = None"
  by (rule re_search_None [where sub = "''<StatusCode>''"]) (auto dest: match_status_code_startswith)

lemma parse_error_no_fields:
  assumes "\<not> contains ''<StatusCode>'' r" "\<not> contains ''<StatusMessage>'' r"
    "\<not> contains ''<ErrorMessage>'' r"
  shows "parse_error r = None"
  using re_search_element_None [of "''StatusMessage''" r]
    re_search_element_None [of "''ErrorMessage''" r] re_search_status_None [of r] assms
  by (simp add: parse_error_def)

lemma process_material_update_silent:
  assumes "ProcessRequest jb (create_query_xml sid m) w = (Inr rq, w1)"
    and "parse_error rq = None" and "parse_last_updated rq = Some t"
    and "ProcessRequest jb (create_update_xml sid m t q reason) w1 = (Inr r, w2)"
    and "parse_error r = None"
  shows "process_material jb sid reason (m, q) (res, calls, w) =
           (add_success res m q,
            calls @ [Call_ProcessRequest (create_query_xml sid m),
                     Call_ProcessRequest (create_update_xml sid m t q reason)], w2)"
proof -
  have "t \<noteq> []"
    using assms(3) re_search_element_Some unfolding parse_last_updated_def by blast
  then show ?thesis using assms by (simp add: process_material_def Let_def)
qed

lemma process_material_query_silent:
  assumes "ProcessRequest jb (create_query_xml sid m) w = (Inr r, w1)"
    and "parse_error r = None" and "parse_last_updated r = None"
  shows "process_material jb sid reason (m, q) (res, calls, w) =
           (add_failed res m q ''Not found'',
            calls @ [Call_ProcessRequest (create_query_xml sid m)], w1)"
  using assms by (simp add: process_material_def Let_def)

text \<open>
  Claim C5, as amended. For a response document with no \<^verbatim>\<open>StatusCode\<close>, no
  \<^verbatim>\<open>StatusMessage\<close> and no \<^verbatim>\<open>ErrorMessage\<close> element the response parser reports no
  error, as it does for status code 0; when such a document answers the update
  request of an item, the item is recorded as a success.
\<close>

theorem response_without_status:
  assumes "\<not> contains ''<StatusCode>'' r" and "\<not> contains ''<StatusMessage>'' r"
    and "\<not> contains ''<ErrorMessage>'' r"
  shows "parse_error r = None \<and>
         (ProcessRequest jb (create_query_xml sid m) w = (Inr rq, w1) \<and>
          parse_error rq = None \<and> parse_last_updated rq = Some t \<and>
          ProcessRequest jb (create_update_xml sid m t q reason) w1 = (Inr r, w2) \<longrightarrow>
          process_material jb sid reason (m, q) (res, calls, w) =
            (add_success res m q,
             calls @ [Call_ProcessRequest (create_query_xml sid m),
                      Call_ProcessRequest (create_update_xml sid m t q reason)], w2))"
  using parse_error_no_fields [OF assms] process_material_update_silent [of jb sid m w rq w1 t q reason r w2]
  by blast

theorem response_without_status_witness:
  "\<not> contains ''<StatusCode>'' ''<JBXML><JBXMLRespond/></JBXML>'' \<and>
   \<not> contains ''<StatusMessage>'' ''<JBXML><JBXMLRespond/></JBXML>'' \<and>
   \<not> contains ''<ErrorMessage>'' ''<JBXML><JBXMLRespond/></JBXML>'' \<and>
   parse_error ''<JBXML><JBXMLRespond/></JBXML>'' = None \<and>
   ProcessRequest scripted_jb (create_query_xml ''S'' ''MAT-001'')
     [''<StatusCode>0</StatusCode><LastUpdated>T1</LastUpdated>'',
      ''<JBXML><JBXMLRespond/></JBXML>''] =
     (Inr ''<StatusCode>0</StatusCode><LastUpdated>T1</LastUpdated>'',
      [''<JBXML><JBXMLRespond/></JBXML>'']) \<and>
   parse_error ''<StatusCode>0</StatusCode><LastUpdated>T1</LastUpdated>'' = None \<and>
   parse_last_updated ''<StatusCode>0</StatusCode><LastUpdated>T1</LastUpdated>'' = Some ''T1'' \<and>
   ProcessRequest scripted_jb (create_update_xml ''S'' ''MAT-001'' ''T1'' (- 1) ''ADJUST'')
     [''<JBXML><JBXMLRespond/></JBXML>''] = (Inr ''<JBXML><JBXMLRespond/></JBXML>'', []) \<and>
   process_material scripted_jb ''S'' ''ADJUST'' (''MAT-001'', - 1)
     (empty_results, [],
      [''<StatusCode>0</StatusCode><LastUpdated>T1</LastUpdated>'',
       ''<JBXML><JBXMLRespond/></JBXML>'']) =
     (add_success empty_results ''MAT-001'' (- 1),
      [] @ [Call_ProcessRequest (create_query_xml ''S'' ''MAT-001''),
            Call_ProcessRequest (create_update_xml ''S'' ''MAT-001'' ''T1'' (- 1) ''ADJUST'')], [])"
proof -
  have a: "\<not> contains ''<StatusCode>'' ''<JBXML><JBXMLRespond/></JBXML>''"
    and b: "\<not> contains ''<StatusMessage>'' ''<JBXML><JBXMLRespond/></JBXML>''"
    and c: "\<not> contains ''<ErrorMessage>'' ''<JBXML><JBXMLRespond/></JBXML>''"
    by simp_all
  have q: "ProcessRequest scripted_jb (create_query_xml ''S'' ''MAT-001'')
     [''<StatusCode>0</StatusCode><LastUpdated>T1</LastUpdated>'',
      ''<JBXML><JBXMLRespond/></JBXML>''] =
     (Inr ''<StatusCode>0</StatusCode><LastUpdated>T1</LastUpdated>'',
      [''<JBXML><JBXMLRespond/></JBXML>''])"
    by (simp add: scripted_jb_def)
  have e: "parse_error ''<StatusCode>0</StatusCode><LastUpdated>T1</LastUpdated>'' = None"
    by (simp add: parse_error_def)
  have l: "parse_last_updated ''<StatusCode>0</StatusCode><LastUpdated>T1</LastUpdated>'' = Some ''T1''"
    by (simp add: parse_last_updated_def match_element_def not_lt_def)
  have u: "ProcessRequest scripted_jb (create_update_xml ''S'' ''MAT-001'' ''T1'' (- 1) ''ADJUST'')
     [''<JBXML><JBXMLRespond/></JBXML>''] = (Inr ''<JBXML><JBXMLRespond/></JBXML>'', [])"
    by (simp add: scripted_jb_def)
  show ?thesis
    using a b c q e l u
      response_without_status [OF a b c, of scripted_jb "''S''" "''MAT-001''"
        "[''<StatusCode>0</StatusCode><LastUpdated>T1</LastUpdated>'',
          ''<JBXML><JBXMLRespond/></JBXML>'']"
        "''<StatusCode>0</StatusCode><LastUpdated>T1</LastUpdated>''"
        "[''<JBXML><JBXMLRespond/></JBXML>'']" "''T1''" "- 1" "''ADJUST''" "[]"
        empty_results "[]"]
    by blast
qed

theorem response_without_status_counterexample:
  "parse_error ''<JBXML><JBXMLRespond/></JBXML>'' = None \<and>
   fst (process_material scripted_jb ''S'' ''ADJUST'' (''MAT-001'', - 1)
          (empty_results, [],
           [''<StatusCode>0</StatusCode><LastUpdated>T1</LastUpdated>'',
            ''<JBXML><JBXMLRespond/></JBXML>''])) =
     \<lparr>success = [\<lparr>item_id = ''MAT-001'', qty = - 1\<rparr>], failed = [], errors = []\<rparr>"
  by code_simp

section \<open>Decimal numerals\<close>

lemma digit_char_cases:
  "d < 10 \<Longrightarrow> d = 0 \<or> d = 1 \<or> d = 2 \<or> d = 3 \<or> d = 4 \<or> d = 5 \<or> d = 6 \<or> d = 7 \<or> d = 8 \<or> d = (9::nat)"
  by arith

lemma digit_char_in: "d < 10 \<Longrightarrow> digit_char d \<in> set ''0123456789''"
  using digit_char_cases [of d] by (auto simp: digit_char_def)


lemma digit_val_digit_char: "d < 10 \<Longrightarrow> digit_val (digit_char d) = Some d"
  using digit_char_cases [of d] by (auto simp: digit_char_def digit_val_def)

lemma str_nat_digits: "set (str_nat n) \<subseteq> set ''0123456789''"
proof (induction n rule: str_nat.induct)
  case (1 n)
  show ?case
  proof (cases "n < 10")
    case True
    then show ?thesis using digit_char_in [of n] by (subst str_nat.simps) simp
  next
    case False
    have "n mod 10 < 10" by simp
    then have "digit_char (n mod 10) \<in> set ''0123456789''" by (rule digit_char_in)
    then show ?thesis using "1.IH" False by (subst str_nat.simps) simp
  qed
qed

lemma str_nat_nonempty: "str_nat n \<noteq> []"
  by (subst str_nat.simps) simp


lemma parse_digits_append:
  "parse_digits (xs @ ys) acc =
     (case parse_digits xs acc of None \<Rightarrow> None | Some a \<Rightarrow> parse_digits ys a)"
  by (induction xs arbitrary: acc) (auto split: option.splits)

lemma parse_digits_str_nat: "parse_digits (str_nat n) 0 = Some n"
proof (induction n rule: str_nat.induct)
  case (1 n)
  show ?case
  proof (cases "n < 10")
    case True
    then show ?thesis using digit_val_digit_char [of n] by (subst str_nat.simps) simp
  next
    case False
    have "digit_val (digit_char (n mod 10)) = Some (n mod 10)"
      by (rule digit_val_digit_char) simp
    then show ?thesis using "1.IH" False
      by (subst str_nat.simps) (simp add: parse_digits_append)
  qed
qed

lemma str_nat_all:
  assumes "\<And>d. d < 10 \<Longrightarrow> P (digit_char d)"
  shows "\<forall>c \<in> set (str_nat n). P c"
proof (induction n rule: str_nat.induct)
  case (1 n)
  show ?case
  proof (cases "n < 10")
    case True
    then show ?thesis using assms [of n] by (subst str_nat.simps) simp
  next
    case False
    have "P (digit_char (n mod 10))" by (rule assms) simp
    then show ?thesis using "1.IH" False by (subst str_nat.simps) simp
  qed
qed

lemma digit_char_not_lt: "d < 10 \<Longrightarrow> digit_char d \<noteq> CHR ''<''"
  using digit_char_cases [of d] by (auto simp: digit_char_def)

lemma digit_char_not_space: "d < 10 \<Longrightarrow> \<not> is_space (digit_char d)"
  using digit_char_cases [of d] by (auto simp: digit_char_def is_space_def)

lemma digit_char_not_sign: "d < 10 \<Longrightarrow> digit_char d \<noteq> CHR ''-'' \<and> digit_char d \<noteq> CHR ''+''"
  using digit_char_cases [of d] by (auto simp: digit_char_def)

lemma lt_free_str_nat: "lt_free (str_nat n)"
  using str_nat_all [of "\<lambda>c. c \<noteq> CHR ''<''" n] digit_char_not_lt
  unfolding lt_free_def by blast

lemma str_int_cases:
  "(i < 0 \<and> str_int i = CHR ''-'' # str_nat (nat (- i))) \<or> (0 \<le> i \<and> str_int i = str_nat (nat i))"
  by (simp add: str_int_def)

lemma lt_free_str_int: "lt_free (str_int i)"
  using str_int_cases [of i] lt_free_str_nat [of "nat i"] lt_free_str_nat [of "nat (- i)"]
  unfolding lt_free_def by (elim disjE conjE) simp_all

lemma str_int_nonempty: "str_int i \<noteq> []"
  using str_int_cases [of i] str_nat_nonempty [of "nat i"] by (elim disjE conjE) simp_all


lemma dropWhile_none: "\<forall>c \<in> set t. \<not> P c \<Longrightarrow> dropWhile P t = t"
  by (cases t) simp_all

lemma no_space_strip: "\<forall>c \<in> set s. \<not> is_space c \<Longrightarrow> strip s = s"
  by (simp add: strip_def dropWhile_none)

lemma str_nat_no_space: "\<forall>c \<in> set (str_nat n). \<not> is_space c"
  by (rule str_nat_all) (rule digit_char_not_space)

lemma minus_not_space: "\<not> is_space CHR ''-''"
  by (simp add: is_space_def)

lemma strip_str_int: "strip (str_int i) = str_int i"
  using str_int_cases [of i] str_nat_no_space [of "nat i"] str_nat_no_space [of "nat (- i)"]
    minus_not_space
  by (elim disjE conjE) (simp_all add: no_space_strip)

lemma str_nat_first:
  "\<exists>c cs. str_nat n = c # cs \<and> c \<noteq> CHR ''-'' \<and> c \<noteq> CHR ''+''"
proof -
  obtain c cs where cs: "str_nat n = c # cs"
    using str_nat_nonempty [of n] by (cases "str_nat n") auto
  have "\<forall>c \<in> set (str_nat n). c \<noteq> CHR ''-'' \<and> c \<noteq> CHR ''+''"
    by (rule str_nat_all) (rule digit_char_not_sign)
  then show ?thesis using cs by simp
qed

lemma py_float_str_int: "py_float (str_int i) = Some i"
proof (cases "i < 0")
  case True
  then have "str_int i = CHR ''-'' # str_nat (nat (- i))" by (simp add: str_int_def)
  then show ?thesis
    using True strip_str_int [of i] str_nat_nonempty [of "nat (- i)"]
      parse_digits_str_nat [of "nat (- i)"]
    by (simp add: py_float_def)
next
  case False
  then have s: "str_int i = str_nat (nat i)" by (simp add: str_int_def)
  obtain c cs where cs: "str_nat (nat i) = c # cs" "c \<noteq> CHR ''-''" "c \<noteq> CHR ''+''"
    using str_nat_first [of "nat i"] by blast
  have "parse_digits (c # cs) 0 = Some (nat i)"
    using parse_digits_str_nat [of "nat i"] cs(1) by simp
  then show ?thesis
    using False s cs strip_str_int [of i] by (simp add: py_float_def del: parse_digits.simps)
qed

section \<open>Scanning past a text that holds no opening tag\<close>











section \<open>Scanning the rendered documents\<close>

lemma re_search_element_next:
  "c \<noteq> CHR ''<'' \<Longrightarrow> re_search (match_element tag) (c # cs) = re_search (match_element tag) cs"
  by (simp add: match_element_anchor)

lemma re_search_element_lt:
  "re_search (match_element tag) (CHR ''<'' # cs) =
     (case match_element tag (CHR ''<'' # cs) of
        Some g \<Rightarrow> Some g
      | None \<Rightarrow> re_search (match_element tag) cs)"
  by simp

lemma re_search_status_next:
  "c \<noteq> CHR ''<'' \<Longrightarrow> re_search match_status_code (c # cs) = re_search match_status_code cs"
  by (simp add: match_status_code_anchor)

lemma re_search_status_lt:
  "re_search match_status_code (CHR ''<'' # cs) =
     (case match_status_code (CHR ''<'' # cs) of
        Some g \<Rightarrow> Some g
      | None \<Rightarrow> re_search match_status_code cs)"
  by simp

lemma re_search_mod_id_next:
  "c \<noteq> CHR ''<'' \<Longrightarrow>
   re_search match_material_mod_id (c # cs) = re_search match_material_mod_id cs"
  by (simp add: match_material_mod_id_anchor)

lemma re_search_mod_id_lt:
  "re_search match_material_mod_id (CHR ''<'' # cs) =
     (case match_material_mod_id (CHR ''<'' # cs) of
        Some g \<Rightarrow> Some g
      | None \<Rightarrow> re_search match_material_mod_id cs)"
  by simp

lemmas scan =
  re_search_element_next re_search_element_lt re_search_status_next re_search_status_lt
  re_search_mod_id_next re_search_mod_id_lt
  re_search_element_skip re_search_status_skip re_search_mod_id_skip
  match_element_def match_status_code_def match_material_mod_id_def
  contains_skip takeWhile_lt_free dropWhile_lt_free not_lt_def is_space_def




lemma load_material_ids_nonempty: "[] \<notin> set (load_material_ids file_lines)"
  by (simp add: load_material_ids_def)






section \<open>Requests and responses of the mock\<close>

lemma lt_free_append [simp]: "lt_free (xs @ ys) = (lt_free xs \<and> lt_free ys)"
  by (auto simp: lt_free_def)

lemma lt_free_Cons [simp]: "lt_free (c # cs) = (c \<noteq> CHR ''<'' \<and> lt_free cs)"
  by (auto simp: lt_free_def)

lemma lt_free_Nil [simp]: "lt_free []"
  by (simp add: lt_free_def)

lemma lt_free_str_num: "lt_free (str_num x)"
  by (cases x) (simp_all add: lt_free_str_int)

lemma query_xml_is_query:
  "lt_free sid \<Longrightarrow> contains ''<MaterialQueryRq>'' (create_query_xml sid k)"
  by (simp add: create_query_xml_def scan)

lemma query_xml_id:
  "lt_free sid \<Longrightarrow> lt_free k \<Longrightarrow> k \<noteq> [] \<Longrightarrow>
   re_search (match_element ''ID'') (create_query_xml sid k) = Some k"
  by (simp add: create_query_xml_def scan del: re_search.simps)

lemma update_xml_not_query:
  "lt_free sid \<Longrightarrow> lt_free k \<Longrightarrow> lt_free t \<Longrightarrow> lt_free reason \<Longrightarrow>
   \<not> contains ''<MaterialQueryRq>'' (create_update_xml sid k t q reason)"
  using lt_free_str_int [of q] by (simp add: create_update_xml_def scan)

lemma update_xml_is_mod:
  "lt_free sid \<Longrightarrow> contains ''<MaterialModRq>'' (create_update_xml sid k t q reason)"
  by (simp add: create_update_xml_def scan)

lemma update_xml_id:
  "lt_free sid \<Longrightarrow> lt_free k \<Longrightarrow> k \<noteq> [] \<Longrightarrow>
   re_search match_material_mod_id (create_update_xml sid k t q reason) = Some k"
  by (simp add: create_update_xml_def scan del: re_search.simps)

lemma update_xml_last_updated:
  "lt_free sid \<Longrightarrow> lt_free k \<Longrightarrow> lt_free t \<Longrightarrow> t \<noteq> [] \<Longrightarrow>
   re_search (match_element ''LastUpdated'') (create_update_xml sid k t q reason) = Some t"
  by (simp add: create_update_xml_def scan del: re_search.simps)

lemma update_xml_quantity:
  "lt_free sid \<Longrightarrow> lt_free k \<Longrightarrow> lt_free t \<Longrightarrow> lt_free reason \<Longrightarrow>
   re_search (match_element ''Quantity'') (create_update_xml sid k t q reason) = Some (str_int q)"
  using lt_free_str_int [of q] str_int_nonempty [of q]
  by (simp add: create_update_xml_def scan del: re_search.simps)

lemma parse_error_query_rs: "parse_error (material_query_rs mat) = None"
  by (simp add: parse_error_def material_query_rs_def)

lemma parse_error_mod_rs: "parse_error (material_mod_rs k mat) = None"
  by (simp add: parse_error_def material_mod_rs_def)

lemma parse_last_updated_query_rs:
  "material_ok mat \<Longrightarrow> parse_last_updated (material_query_rs mat) = Some (last_updated mat)"
  using lt_free_str_num [of "on_hand mat"]
  by (simp add: parse_last_updated_def material_query_rs_def material_ok_def scan
      del: re_search.simps)

lemma parse_error_error_response:
  "lt_free msg \<Longrightarrow> msg \<noteq> [] \<Longrightarrow> parse_error (error_response msg) = Some msg"
  by (simp add: parse_error_def error_response_def scan del: re_search.simps)

lemma mock_query:
  assumes "lt_free sid" and "lt_free k" and "k \<noteq> []"
  shows "mock_ProcessRequest clk (create_query_xml sid k) s =
           (Inr (case map_of (materials s) k of
                   Some mat \<Rightarrow> material_query_rs mat
                 | None \<Rightarrow> error_response (''Material not found: '' @ k)),
            s\<lparr>request_log := request_log s @ [create_query_xml sid k]\<rparr>)"
  using assms
  by (simp add: mock_ProcessRequest_def handle_material_query_def query_xml_is_query
      query_xml_id Let_def)

lemma mock_update:
  assumes "lt_free sid" and "lt_free k" and "k \<noteq> []" and "lt_free t" and "t \<noteq> []"
    and "lt_free reason" and "map_of (materials s) k = Some mat"
  shows "mock_ProcessRequest clk (create_update_xml sid k t q reason) s =
           (if t \<noteq> last_updated mat
            then (Inr (error_response (''LastUpdated mismatch. Expected: '' @ last_updated mat @
                                       '', Got: '' @ t)),
                  s\<lparr>request_log := request_log s @ [create_update_xml sid k t q reason]\<rparr>)
            else (Inr (material_mod_rs k
                         (mat\<lparr>on_hand := num_add_float (on_hand mat) q,
                              last_updated := isoformat_now clk (ticks s)\<rparr>)),
                  s\<lparr>request_log := request_log s @ [create_update_xml sid k t q reason],
                    materials := AList.update k
                         (mat\<lparr>on_hand := num_add_float (on_hand mat) q,
                              last_updated := isoformat_now clk (ticks s)\<rparr>) (materials s),
                    ticks := Suc (ticks s)\<rparr>))"
  using assms
  by (simp add: mock_ProcessRequest_def handle_material_mod_def update_xml_not_query
      update_xml_is_mod update_xml_id update_xml_last_updated update_xml_quantity
      py_float_str_int Let_def)

lemma mock_material_unknown:
  assumes "lt_free sid" and "lt_free k" and "k \<noteq> []" and "map_of (materials s) k = None"
  shows "process_material (MockJobBOSS clk) sid reason (k, q) (r, c, s) =
           (add_failed r k q (''Material not found: '' @ k),
            c @ [Call_ProcessRequest (create_query_xml sid k)],
            s\<lparr>request_log := request_log s @ [create_query_xml sid k]\<rparr>)"
proof -
  have "parse_error (error_response (''Material not found: '' @ k)) =
          Some (''Material not found: '' @ k)"
    using assms(2) by (intro parse_error_error_response) simp_all
  then show ?thesis
    using assms mock_query [OF assms(1-3), of clk s]
    by (simp add: process_material_def MockJobBOSS_def Let_def)
qed

lemma mock_material_known:
  assumes "lt_free sid" and "lt_free k" and "k \<noteq> []" and "lt_free reason"
    and "map_of (materials s) k = Some mat" and "material_ok mat"
  shows "process_material (MockJobBOSS clk) sid reason (k, q) (r, c, s) =
           (add_success r k q,
            c @ [Call_ProcessRequest (create_query_xml sid k),
                 Call_ProcessRequest (create_update_xml sid k (last_updated mat) q reason)],
            s\<lparr>request_log := request_log s @
                   [create_query_xml sid k, create_update_xml sid k (last_updated mat) q reason],
              materials := AList.update k
                   (mat\<lparr>on_hand := num_add_float (on_hand mat) q,
                        last_updated := isoformat_now clk (ticks s)\<rparr>) (materials s),
              ticks := Suc (ticks s)\<rparr>)"
proof -
  let ?s1 = "s\<lparr>request_log := request_log s @ [create_query_xml sid k]\<rparr>"
  have t: "lt_free (last_updated mat)" "last_updated mat \<noteq> []"
    using assms(6) by (simp_all add: material_ok_def)
  have q1: "mock_ProcessRequest clk (create_query_xml sid k) s = (Inr (material_query_rs mat), ?s1)"
    using mock_query [OF assms(1-3), of clk s] assms(5) by simp
  have m1: "map_of (materials ?s1) k = Some mat" using assms(5) by simp
  have u1: "mock_ProcessRequest clk (create_update_xml sid k (last_updated mat) q reason) ?s1 =
     (Inr (material_mod_rs k
             (mat\<lparr>on_hand := num_add_float (on_hand mat) q,
                  last_updated := isoformat_now clk (ticks s)\<rparr>)),
      s\<lparr>request_log := request_log s @
             [create_query_xml sid k, create_update_xml sid k (last_updated mat) q reason],
        materials := AList.update k
             (mat\<lparr>on_hand := num_add_float (on_hand mat) q,
                  last_updated := isoformat_now clk (ticks s)\<rparr>) (materials s),
        ticks := Suc (ticks s)\<rparr>)"
    using mock_update [OF assms(1-3) t assms(4) m1, of clk q] by simp
  show ?thesis
    using q1 u1 t parse_last_updated_query_rs [OF assms(6)]
    by (simp add: process_material_def MockJobBOSS_def Let_def parse_error_query_rs
        parse_error_mod_rs)
qed

lemma store_ok_lookup:
  "store_ok s \<Longrightarrow> map_of (materials s) k = Some mat \<Longrightarrow> material_ok mat"
  by (auto simp: store_ok_def list_all_iff dest!: map_of_SomeD)

lemma set_update_subset: "set (AList.update k v al) \<subseteq> insert (k, v) (set al)"
  by (induction al) auto

lemma store_ok_update:
  assumes "store_ok s" and "material_ok mat'"
  shows "store_ok (s\<lparr>request_log := l, materials := AList.update k mat' (materials s),
                    ticks := n\<rparr>)"
  using assms set_update_subset [of k mat' "materials s"]
  by (auto simp: store_ok_def list_all_iff)

lemma known_lookup: "k \<in> fst ` set al \<Longrightarrow> \<exists>v. map_of al k = Some v"
  by (metis domD dom_map_of_conv_image_fst)

lemma unknown_lookup: "k \<notin> fst ` set al \<Longrightarrow> map_of al k = None"
  by (simp add: map_of_eq_None_iff)

lemma mock_process_all:
  assumes clock: "\<And>n. lt_free (isoformat_now clk n) \<and> isoformat_now clk n \<noteq> []"
    and sid: "lt_free sid" and reason: "lt_free reason"
  shows "store_ok s \<Longrightarrow> \<forall>it \<in> set items. lt_free (fst it) \<and> fst it \<noteq> [] \<Longrightarrow>
    process_all (MockJobBOSS clk) sid reason items (r, c, s) = (r', c', s') \<Longrightarrow>
    success r' = success r @
      map (\<lambda>it. \<lparr>item_id = fst it, qty = snd it\<rparr>)
        (filter (\<lambda>it. fst it \<in> fst ` set (materials s)) items) \<and>
    failed r' = failed r @
      map (\<lambda>it. \<lparr>item_id = fst it, qty = snd it, error = ''Material not found: '' @ fst it\<rparr>)
        (filter (\<lambda>it. fst it \<notin> fst ` set (materials s)) items) \<and>
    filter is_close c' = filter is_close c \<and>
    store_ok s' \<and> fst ` set (materials s') = fst ` set (materials s)"
proof (induction items arbitrary: r c s)
  case Nil
  then show ?case by (simp add: process_all_def)
next
  case (Cons it items)
  obtain k q where it: "it = (k, q)" by (cases it)
  have k: "lt_free k" "k \<noteq> []" using Cons.prems(2) it by auto
  have items: "\<forall>it \<in> set items. lt_free (fst it) \<and> fst it \<noteq> []" using Cons.prems(2) by simp
  show ?case
  proof (cases "k \<in> fst ` set (materials s)")
    case True
    then have "\<exists>v. map_of (materials s) k = Some v" by (rule known_lookup)
    then obtain mat where mat: "map_of (materials s) k = Some mat" ..
    have ok: "material_ok mat" using store_ok_lookup [OF Cons.prems(1) mat] .
    let ?mat' = "mat\<lparr>on_hand := num_add_float (on_hand mat) q,
                      last_updated := isoformat_now clk (ticks s)\<rparr>"
    let ?s1 = "s\<lparr>request_log := request_log s @
                   [create_query_xml sid k, create_update_xml sid k (last_updated mat) q reason],
                 materials := AList.update k ?mat' (materials s), ticks := Suc (ticks s)\<rparr>"
    let ?c1 = "c @ [Call_ProcessRequest (create_query_xml sid k),
                    Call_ProcessRequest (create_update_xml sid k (last_updated mat) q reason)]"
    have step: "process_material (MockJobBOSS clk) sid reason (k, q) (r, c, s) =
                  (add_success r k q, ?c1, ?s1)"
      by (rule mock_material_known [OF sid k reason mat ok])
    have ok': "material_ok ?mat'" using ok clock by (simp add: material_ok_def)
    have s1: "store_ok ?s1" by (rule store_ok_update [OF Cons.prems(1) ok'])
    have d1: "fst ` set (materials ?s1) = fst ` set (materials s)"
      using True by (auto simp: dom_update)
    have rest: "process_all (MockJobBOSS clk) sid reason items (add_success r k q, ?c1, ?s1) =
                  (r', c', s')"
      using Cons.prems(3) it step by (simp add: process_all_def)
    show ?thesis
      using Cons.IH [OF s1 items rest] True it d1 by (simp add: add_success_def)
  next
    case False
    then have none: "map_of (materials s) k = None" by (rule unknown_lookup)
    let ?s1 = "s\<lparr>request_log := request_log s @ [create_query_xml sid k]\<rparr>"
    let ?c1 = "c @ [Call_ProcessRequest (create_query_xml sid k)]"
    have step: "process_material (MockJobBOSS clk) sid reason (k, q) (r, c, s) =
                  (add_failed r k q (''Material not found: '' @ k), ?c1, ?s1)"
      by (rule mock_material_unknown [OF sid k none])
    have s1: "store_ok ?s1" using Cons.prems(1) by (simp add: store_ok_def)
    have rest: "process_all (MockJobBOSS clk) sid reason items
                  (add_failed r k q (''Material not found: '' @ k), ?c1, ?s1) = (r', c', s')"
      using Cons.prems(3) it step by (simp add: process_all_def)
    show ?thesis
      using Cons.IH [OF s1 items rest] False it by (simp add: add_failed_def)
  qed
qed

lemma filter_key_distinct:
  "distinct (map fst xs) \<Longrightarrow> (k, v) \<in> set xs \<Longrightarrow> filter (\<lambda>it. fst it = k) xs = [(k, v)]"
proof (induction xs)
  case Nil
  then show ?case by simp
next
  case (Cons x xs)
  show ?case
  proof (cases "x = (k, v)")
    case True
    then have "k \<notin> fst ` set xs" using Cons.prems(1) by simp
    then have "filter (\<lambda>it. fst it = k) xs = []" by (auto simp: filter_empty_conv)
    then show ?thesis using True by simp
  next
    case False
    then have in_xs: "(k, v) \<in> set xs" using Cons.prems(2) by simp
    then have "fst x \<noteq> k" using Cons.prems(1) by (auto simp: image_iff)
    then show ?thesis using Cons.IH in_xs Cons.prems(1) by simp
  qed
qed

lemma sorted_items:
  assumes "k \<in> set ids"
  shows "(k, - int (count_list ids k)) \<in> set (sort (count_materials ids)) \<and>
         distinct (map fst (sort (count_materials ids))) \<and>
         fst ` set (sort (count_materials ids)) = set ids"
proof -
  have "map_of (count_materials ids) k = Some (- int (count_list ids k))"
    using assms by (simp add: count_materials_map_of)
  then have "(k, - int (count_list ids k)) \<in> set (count_materials ids)"
    by (rule map_of_SomeD)
  moreover have "mset (map fst (sort (count_materials ids))) = mset (map fst (count_materials ids))"
    by (metis mset_map mset_sort)
  then have "distinct (map fst (sort (count_materials ids)))"
    using count_materials_distinct [of ids] by (metis mset_eq_imp_distinct_iff)
  ultimately show ?thesis using count_materials_dom [of ids] by simp
qed

lemma mock_run:
  assumes clock: "\<And>n. lt_free (isoformat_now clk n) \<and> isoformat_now clk n \<noteq> []"
    and stamp: "lt_free (strftime_now clk (ticks s))"
    and store: "store_ok s" and cred: "u \<noteq> []" "p \<noteq> []" and reason: "lt_free reason"
    and ids: "load_material_ids file_lines \<noteq> []"
      "\<forall>k \<in> set (load_material_ids file_lines). lt_free k"
    and run: "run_updates (mock_dispatch clk) file_lines u p reason False s = (res, calls, s')"
  shows "success res =
           map (\<lambda>it. \<lparr>item_id = fst it, qty = snd it\<rparr>)
             (filter (\<lambda>it. fst it \<in> fst ` set (materials s))
                (sort (count_materials (load_material_ids file_lines)))) \<and>
         failed res =
           map (\<lambda>it. \<lparr>item_id = fst it, qty = snd it,
                       error = ''Material not found: '' @ fst it\<rparr>)
             (filter (\<lambda>it. fst it \<notin> fst ` set (materials s))
                (sort (count_materials (load_material_ids file_lines)))) \<and>
         errors res = [] \<and>
         filter is_close calls = [Call_CloseSession (''MOCK-SESSION-'' @ strftime_now clk (ticks s))] \<and>
         last calls = Call_CloseSession (''MOCK-SESSION-'' @ strftime_now clk (ticks s))"
proof -
  let ?ids = "load_material_ids file_lines"
  let ?items = "sort (count_materials ?ids)"
  let ?sid = "''MOCK-SESSION-'' @ strftime_now clk (ticks s)"
  let ?s1 = "s\<lparr>session_active := True, session_id := Some ?sid, ticks := Suc (ticks s)\<rparr>"
  let ?c1 = "[Call_Dispatch prog_id, Call_CreateSession u p '''']"
  have sid: "lt_free ?sid" using stamp by simp
  have s1: "store_ok ?s1" using store by (simp add: store_ok_def)
  have it: "\<forall>it \<in> set ?items. lt_free (fst it) \<and> fst it \<noteq> []"
  proof
    fix it assume "it \<in> set ?items"
    then have "fst it \<in> fst ` set (count_materials ?ids)" by simp
    then have "fst it \<in> set ?ids" using count_materials_dom [of ?ids] by simp
    then show "lt_free (fst it) \<and> fst it \<noteq> []"
      using ids(2) load_material_ids_nonempty [of file_lines] by auto
  qed
  obtain r3 c3 s3 where loop:
    "process_all (MockJobBOSS clk) ?sid reason ?items (empty_results, ?c1, ?s1) = (r3, c3, s3)"
    by (metis prod_cases3)
  have r: "res = r3" and c: "calls = c3 @ [Call_CloseSession ?sid]"
    using run loop ids(1) cred
    by (simp_all add: run_updates_def mock_dispatch_def prog_id_def MockJobBOSS_def
        mock_CreateSession_def Let_def)
  have e: "errors r3 = []" using process_all_ids [OF loop] by (simp add: empty_results_def)
  show ?thesis
    using mock_process_all [OF clock sid reason s1 it loop] r c e
    by (simp add: empty_results_def)
qed

text \<open>
  Claim C2, as amended. Take the mock as the store, with texts that contain no
  \<^verbatim>\<open><\<close> (the identifier, description and token of each record, the texts of the
  clock, the cause code and the identifiers of the batch) and non-empty tokens, and a
  batch whose identifiers are \<open>a\<close>, in the store, and \<open>b\<close>, not in the store. A run
  with a non-empty user name and password records exactly one success, for \<open>a\<close>,
  and exactly one failure, for \<open>b\<close>, whose reason is the store's message
  \<^verbatim>\<open>Material not found: \<close> followed by \<open>b\<close>; it records no error, and it closes
  the session exactly once, as its last call.
\<close>

theorem known_and_unknown:
  assumes "\<And>n. lt_free (isoformat_now clk n) \<and> isoformat_now clk n \<noteq> []"
    and "lt_free (strftime_now clk (ticks s))"
    and "store_ok s" and "u \<noteq> []" and "p \<noteq> []" and "lt_free reason"
    and "set (load_material_ids file_lines) = {a, b}" and "lt_free a" and "lt_free b"
    and "map_of (materials s) a \<noteq> None" and "map_of (materials s) b = None"
  shows "case run_updates (mock_dispatch clk) file_lines u p reason False s of
           (res, calls, s') \<Rightarrow>
             success res =
               [\<lparr>item_id = a, qty = - int (count_list (load_material_ids file_lines) a)\<rparr>] \<and>
             failed res =
               [\<lparr>item_id = b, qty = - int (count_list (load_material_ids file_lines) b),
                 error = ''Material not found: '' @ b\<rparr>] \<and>
             errors res = [] \<and>
             filter is_close calls =
               [Call_CloseSession (''MOCK-SESSION-'' @ strftime_now clk (ticks s))] \<and>
             last calls = Call_CloseSession (''MOCK-SESSION-'' @ strftime_now clk (ticks s))"
proof -
  let ?ids = "load_material_ids file_lines"
  let ?items = "sort (count_materials ?ids)"
  obtain res calls s' where run:
    "run_updates (mock_dispatch clk) file_lines u p reason False s = (res, calls, s')"
    by (metis prod_cases3)
  have ne: "?ids \<noteq> []" using assms(7) by auto
  have lt: "\<forall>k \<in> set ?ids. lt_free k" using assms(7-9) by auto
  have ka: "a \<in> fst ` set (materials s)" and kb: "b \<notin> fst ` set (materials s)"
    using assms(10,11) by (simp_all add: map_of_eq_None_iff)
  have a: "(a, - int (count_list ?ids a)) \<in> set ?items"
    and d: "distinct (map fst ?items)" and keys: "fst ` set ?items = {a, b}"
    using sorted_items [of a ?ids] assms(7) by simp_all
  have b: "(b, - int (count_list ?ids b)) \<in> set ?items"
    using sorted_items [of b ?ids] assms(7) by simp
  have "filter (\<lambda>it. fst it \<in> fst ` set (materials s)) ?items = filter (\<lambda>it. fst it = a) ?items"
    using keys ka kb by (intro filter_cong) auto
  then have fa: "filter (\<lambda>it. fst it \<in> fst ` set (materials s)) ?items =
                   [(a, - int (count_list ?ids a))]"
    using filter_key_distinct [OF d a] by simp
  have "filter (\<lambda>it. fst it \<notin> fst ` set (materials s)) ?items = filter (\<lambda>it. fst it = b) ?items"
    using keys ka kb by (intro filter_cong) auto
  then have fb: "filter (\<lambda>it. fst it \<notin> fst ` set (materials s)) ?items =
                   [(b, - int (count_list ?ids b))]"
    using filter_key_distinct [OF d b] by simp
  show ?thesis
    using mock_run [OF assms(1-6) ne lt run] run fa fb by simp
qed

theorem known_and_unknown_witness:
  "(\<forall>n. lt_free (isoformat_now test_clock n) \<and> isoformat_now test_clock n \<noteq> []) \<and>
   lt_free (strftime_now test_clock (ticks test_store)) \<and>
   store_ok test_store \<and> ''test'' \<noteq> [] \<and> lt_free ''TEST'' \<and>
   set (load_material_ids test_input) = {''EXISTING-001'', ''NONEXISTENT-999''} \<and>
   lt_free ''EXISTING-001'' \<and> lt_free ''NONEXISTENT-999'' \<and>
   map_of (materials test_store) ''EXISTING-001'' \<noteq> None \<and>
   map_of (materials test_store) ''NONEXISTENT-999'' = None \<and>
   (case run_updates (mock_dispatch test_clock) test_input ''test'' ''test'' ''TEST'' False
           test_store of
      (res, calls, s') \<Rightarrow>
        success res =
          [\<lparr>item_id = ''EXISTING-001'',
            qty = - int (count_list (load_material_ids test_input) ''EXISTING-001'')\<rparr>] \<and>
        failed res =
          [\<lparr>item_id = ''NONEXISTENT-999'',
            qty = - int (count_list (load_material_ids test_input) ''NONEXISTENT-999''),
            error = ''Material not found: '' @ ''NONEXISTENT-999''\<rparr>] \<and>
        errors res = [] \<and>
        filter is_close calls =
          [Call_CloseSession (''MOCK-SESSION-'' @ strftime_now test_clock (ticks test_store))] \<and>
        last calls =
          Call_CloseSession (''MOCK-SESSION-'' @ strftime_now test_clock (ticks test_store)))"
proof -
  have c: "\<And>n. lt_free (isoformat_now test_clock n) \<and> isoformat_now test_clock n \<noteq> []"
    by (simp add: test_clock_def lt_free_str_nat)
  have st: "lt_free (strftime_now test_clock (ticks test_store))"
    by (simp add: test_clock_def)
  have so: "store_ok test_store"
    by (simp add: store_ok_def test_store_def material_ok_def)
  have u: "''test'' \<noteq> []" and r: "lt_free ''TEST''" by simp_all
  have ids: "set (load_material_ids test_input) = {''EXISTING-001'', ''NONEXISTENT-999''}"
    by (simp add: load_material_ids_def test_input_def strip_def is_space_def)
  have a: "lt_free ''EXISTING-001''" and b: "lt_free ''NONEXISTENT-999''" by simp_all
  have ka: "map_of (materials test_store) ''EXISTING-001'' \<noteq> None"
    and kb: "map_of (materials test_store) ''NONEXISTENT-999'' = None"
    by (simp_all add: test_store_def)
  show ?thesis
    using c st so u r ids a b ka kb known_and_unknown [OF c st so u u r ids a b ka kb]
    by blast
qed

theorem known_and_unknown_counterexample:
  "map error (failed (fst (run_updates (mock_dispatch test_clock) test_input ''test'' ''test''
                             ''TEST'' False test_store))) =
     [''Material not found: NONEXISTENT-999''] \<and>
   error (hd (failed (fst (run_updates (mock_dispatch test_clock) test_input ''test'' ''test''
                             ''TEST'' False test_store)))) \<noteq> ''Not found'' \<and>
   success (fst (run_updates (mock_dispatch test_clock)
                   [''A<B\<newline>'', ''NONEXISTENT-999\<newline>''] ''test'' ''test'' ''TEST'' False
                   (test_store\<lparr>materials :=
                      [(''A<B'', \<lparr>mat_id = ''A<B'', description = ''Exists'',
                                 on_hand = PyInt 10,
                                 last_updated = ''2025-01-01T00:00:00''\<rparr>)]\<rparr>))) = []"
  by code_simp





end
